theory Spec2Isabelle
  imports Main "HOL-Library.Word"
begin

section \<open>The organise dialog: data\<close>

text \<open>
  The development embeds \<^verbatim>\<open>src/ui/organisedialog.cpp\<close>. The dialog is a record of
  its widgets' observable state and of its four data members (\<^verbatim>\<open>format_\<close>,
  \<^verbatim>\<open>filenames_\<close>, \<^verbatim>\<open>preview_songs_\<close>, \<^verbatim>\<open>total_size_\<close>, written \<open>this_format\<close>
  and so on, since a name cannot end in an underscore here); every method is a
  function from the dialog before the call to the dialog after it.

  Classes that the dialog only uses are kept as small as the dialog's code lets them be:
  a \<^verbatim>\<open>MusicStorage\<close> is what \<^verbatim>\<open>LocalPath()\<close> returns, a \<^verbatim>\<open>Song\<close> is the three
  accessors the dialog calls, a \<^verbatim>\<open>QUrl\<close> is the three observations \<^verbatim>\<open>SetSongs\<close> and
  \<^verbatim>\<open>SetUrls\<close> make of it. The constructor's menu of tags, \<^verbatim>\<open>InsertTag\<close>,
  \<^verbatim>\<open>SetDestinationModel\<close>, \<^verbatim>\<open>showEvent\<close> and \<^verbatim>\<open>sizeHint\<close> are not embedded;
  what they do to the dialog goes through the widget setters below.
\<close>

type_synonym quint64 = "64 word"

record MusicStorage =
  LocalPath :: string

text \<open>
  One row of the destination combo box's model, with the data it gives for the roles
  the dialog asks for. \<^verbatim>\<open>toLongLong()\<close> followed by the conversion to
  \<^verbatim>\<open>quint64\<close> keeps the 64 bits, so the two sizes are stored as the \<^verbatim>\<open>quint64\<close>
  the dialog compares. A null \<^verbatim>\<open>MusicStorage*\<close> is \<open>None\<close>.
\<close>

record dest_item =
  item_text :: string
  Role_Storage :: "MusicStorage option"
  Role_Capacity :: quint64
  Role_FreeSpace :: quint64

record OrganiseFormat =
  format :: string
  replace_non_ascii :: bool
  replace_spaces :: bool
  replace_the :: bool

record Song =
  filename :: string
  filesize :: int
  is_valid :: bool

record QUrl =
  isEmpty :: bool
  scheme :: string
  toLocalFile :: string

record FreeSpaceBar =
  bar_visible :: bool
  free_bytes :: quint64
  total_bytes :: quint64
  additional_bytes :: quint64

record OrganiseDialog =
  ui_destination_model :: "dest_item list"
  ui_destination_currentIndex :: int
  ui_naming :: string
  ui_replace_ascii :: bool
  ui_replace_spaces :: bool
  ui_replace_the :: bool
  ui_overwrite :: bool
  ui_eject_after :: bool
  ui_aftercopying_currentIndex :: int
  ui_free_space :: FreeSpaceBar
  ui_ok_enabled :: bool
  ui_preview :: "string list"
  ui_preview_group_visible :: bool
  ui_naming_group_visible :: bool
  this_format :: OrganiseFormat
  this_filenames :: "string list"
  this_preview_songs :: "Song list"
  this_total_size :: quint64

text \<open>
  What \<^verbatim>\<open>LoadPreviewSongs\<close> finds at a path: a directory with its entries, a
  regular file, or something that is neither (a FIFO, a socket, a device, a dangling link,
  or nothing at all), which Qt calls a system entry. On a file and on a system entry
  \<^verbatim>\<open>Song::InitFromFile\<close> is run; the node carries the song that call leaves behind (not
  \<open>is_valid\<close> when the metadata cannot be read). An entry of a directory has its name,
  whether the application may read it, whether the file system marks it hidden (the
  hidden attribute of Windows, the invisible flag of macOS), and what is found under that
  name. The entries are in the order in which \<^verbatim>\<open>QDir\<close> lists them. The tree is finite, as
  a directory tree is, so the recursion of \<^verbatim>\<open>LoadPreviewSongs\<close> ends: each call goes to
  a smaller tree.
\<close>

datatype fsnode = File Song | Dir "dirent list" | Special Song
  and dirent =
    Dirent (entry_name: string) (entry_readable: bool) (entry_hidden: bool) (entry_node: fsnode)

text \<open>
  Functions the dialog calls whose bodies are outside this file: the two methods of
  \<^verbatim>\<open>OrganiseFormat\<close> and Qt's \<^verbatim>\<open>QDir::toNativeSeparators\<close> and \<^verbatim>\<open>QUrl\<close>
  constructor. They are parameters: every theorem below holds for all of them. So is
  the file system: \<open>node_at\<close> gives what is found at a path, and \<open>dot_names_hidden\<close>
  says whether the platform takes a name that starts with a dot for a hidden one, as
  \<^verbatim>\<open>QFileInfo::isHidden\<close> does on Unix and macOS and does not on Windows.
\<close>

record Env =
  IsValid :: "OrganiseFormat \<Rightarrow> bool"
  GetFilenameForSong :: "OrganiseFormat \<Rightarrow> Song \<Rightarrow> string"
  toNativeSeparators :: "string \<Rightarrow> string"
  QUrl_of :: "string \<Rightarrow> QUrl"
  node_at :: "string \<Rightarrow> fsnode"
  dot_names_hidden :: bool

definition kNumberOfPreviews :: nat where
  "kNumberOfPreviews = 10"

definition kDefaultFormat :: string where
  "kDefaultFormat = ''%artist/%album{ (Disc %disc)}/{%track - }%title.%extension''"

definition kSettingsGroup :: string where
  "kSettingsGroup = ''OrganiseDialog''"

section \<open>UpdatePreviews\<close>

text \<open>
  \<^verbatim>\<open>ui_->destination->model()->index(currentIndex, 0)\<close>: a valid index is \<open>Some\<close> row,
  an invalid one (no current item, or a row the model does not have) is \<open>None\<close>.
\<close>

definition current_destination :: "OrganiseDialog \<Rightarrow> dest_item option" where
  "current_destination d =
     (let i = ui_destination_currentIndex d in
      if 0 \<le> i \<and> i < int (length (ui_destination_model d))
      then Some (ui_destination_model d ! nat i) else None)"

text \<open>
  \<^verbatim>\<open>destination.data(role)\<close> of an invalid index is an invalid variant:
  its \<^verbatim>\<open>value<MusicStorage*>()\<close> is null and its \<^verbatim>\<open>toLongLong()\<close> is 0.
\<close>

definition destination_storage :: "dest_item option \<Rightarrow> MusicStorage option" where
  "destination_storage dest = (case dest of None \<Rightarrow> None | Some it \<Rightarrow> Role_Storage it)"

definition destination_capacity :: "dest_item option \<Rightarrow> quint64" where
  "destination_capacity dest = (case dest of None \<Rightarrow> 0 | Some it \<Rightarrow> Role_Capacity it)"

definition destination_free :: "dest_item option \<Rightarrow> quint64" where
  "destination_free dest = (case dest of None \<Rightarrow> 0 | Some it \<Rightarrow> Role_FreeSpace it)"

definition update_free_space_bar :: "quint64 \<Rightarrow> quint64 \<Rightarrow> FreeSpaceBar \<Rightarrow> FreeSpaceBar" where
  "update_free_space_bar capacity free bar =
     (if capacity = 0 then bar\<lparr>bar_visible := False\<rparr>
      else bar\<lparr>bar_visible := True, free_bytes := free, total_bytes := capacity\<rparr>)"

definition widgets_format :: "OrganiseDialog \<Rightarrow> OrganiseFormat" where
  "widgets_format d =
     \<lparr>format = ui_naming d,
      replace_non_ascii = ui_replace_ascii d,
      replace_spaces = ui_replace_spaces d,
      replace_the = ui_replace_the d\<rparr>"

definition preview_items :: "Env \<Rightarrow> OrganiseFormat \<Rightarrow> MusicStorage \<Rightarrow> Song list \<Rightarrow> string list" where
  "preview_items env fmt storage songs =
     map (\<lambda>song. toNativeSeparators env (LocalPath storage @ ''/'' @ GetFilenameForSong env fmt song))
         songs"

text \<open>
  The method, statement by statement. \<^verbatim>\<open>adjustSize()\<close> changes the geometry only and
  is left out. The preview list is cleared and then filled, which is one assignment here.
\<close>

definition UpdatePreviews :: "Env \<Rightarrow> OrganiseDialog \<Rightarrow> OrganiseDialog" where
  "UpdatePreviews env d =
     (let destination = current_destination d;
          storage = destination_storage destination;
          has_local_destination = (case storage of None \<Rightarrow> False | Some s \<Rightarrow> LocalPath s \<noteq> []);
          capacity = destination_capacity destination;
          free = destination_free destination;
          d1 = d\<lparr>ui_free_space := update_free_space_bar capacity free (ui_free_space d)\<rparr>;
          d2 = d1\<lparr>this_format := widgets_format d1\<rparr>;
          format_valid = IsValid env (this_format d2);
          ok0 = (format_valid \<and> storage \<noteq> None \<and> this_filenames d2 \<noteq> []);
          ok = (if capacity \<noteq> 0 \<and> this_total_size d2 > free then False else ok0);
          d3 = d2\<lparr>ui_ok_enabled := ok\<rparr>
      in if \<not> format_valid then d3
         else d3\<lparr>ui_preview :=
                    (case storage of
                       None \<Rightarrow> []
                     | Some s \<Rightarrow> if has_local_destination
                                then preview_items env (this_format d3) s (this_preview_songs d3) else []),
                  ui_preview_group_visible := has_local_destination,
                  ui_naming_group_visible := has_local_destination\<rparr>)"

section \<open>Widget setters and the connected slot\<close>

text \<open>
  The constructor connects \<^verbatim>\<open>naming.textChanged\<close>, the \<^verbatim>\<open>toggled\<close> signal of the three
  replace check boxes and \<^verbatim>\<open>destination.currentIndexChanged\<close> to \<^verbatim>\<open>UpdatePreviews\<close>.
  Qt delivers these signals inside the setter, so a setter of a connected widget runs the
  slot before it returns. A check box and a combo box signal a change of value only;
  the overwrite and eject-after check boxes and the after-copying selector are not
  connected.
\<close>

definition naming_setPlainText :: "Env \<Rightarrow> string \<Rightarrow> OrganiseDialog \<Rightarrow> OrganiseDialog" where
  "naming_setPlainText env t d = UpdatePreviews env (d\<lparr>ui_naming := t\<rparr>)"

definition replace_ascii_setChecked :: "Env \<Rightarrow> bool \<Rightarrow> OrganiseDialog \<Rightarrow> OrganiseDialog" where
  "replace_ascii_setChecked env b d =
     (if ui_replace_ascii d = b then d else UpdatePreviews env (d\<lparr>ui_replace_ascii := b\<rparr>))"

definition replace_spaces_setChecked :: "Env \<Rightarrow> bool \<Rightarrow> OrganiseDialog \<Rightarrow> OrganiseDialog" where
  "replace_spaces_setChecked env b d =
     (if ui_replace_spaces d = b then d else UpdatePreviews env (d\<lparr>ui_replace_spaces := b\<rparr>))"

definition replace_the_setChecked :: "Env \<Rightarrow> bool \<Rightarrow> OrganiseDialog \<Rightarrow> OrganiseDialog" where
  "replace_the_setChecked env b d =
     (if ui_replace_the d = b then d else UpdatePreviews env (d\<lparr>ui_replace_the := b\<rparr>))"

definition destination_setCurrentIndex :: "Env \<Rightarrow> int \<Rightarrow> OrganiseDialog \<Rightarrow> OrganiseDialog" where
  "destination_setCurrentIndex env i d =
     (if ui_destination_currentIndex d = i then d
      else UpdatePreviews env (d\<lparr>ui_destination_currentIndex := i\<rparr>))"

definition SetCopy :: "bool \<Rightarrow> OrganiseDialog \<Rightarrow> OrganiseDialog" where
  "SetCopy copy d = d\<lparr>ui_aftercopying_currentIndex := (if copy then 0 else 1)\<rparr>"

section \<open>Reset\<close>

definition Reset :: "Env \<Rightarrow> OrganiseDialog \<Rightarrow> OrganiseDialog" where
  "Reset env d =
     (let d1 = naming_setPlainText env kDefaultFormat d;
          d2 = replace_ascii_setChecked env False d1;
          d3 = replace_spaces_setChecked env False d2;
          d4 = replace_the_setChecked env False d3;
          d5 = d4\<lparr>ui_overwrite := True\<rparr>
      in d5\<lparr>ui_eject_after := False\<rparr>)"

section \<open>Loading the preview songs\<close>

text \<open>
  \<^verbatim>\<open>QFileInfo::isHidden\<close> of an entry, and Qt's test for a system entry.
\<close>

definition isHidden :: "Env \<Rightarrow> dirent \<Rightarrow> bool" where
  "isHidden env e \<longleftrightarrow> entry_hidden e \<or> (dot_names_hidden env \<and> take 1 (entry_name e) = ''.'')"

fun isSystem :: "fsnode \<Rightarrow> bool" where
  "isSystem (Special _) = True"
| "isSystem (File _) = False"
| "isSystem (Dir _) = False"

text \<open>
  \<^verbatim>\<open>dir.entryList(QDir::Dirs | QDir::Files | QDir::NoDotAndDotDot | QDir::Readable)\<close>.
  Directories and files are both asked for. \<^verbatim>\<open>NoDotAndDotDot\<close> drops the two special
  names; as neither \<^verbatim>\<open>QDir::Hidden\<close> nor \<^verbatim>\<open>QDir::System\<close> is given, hidden entries
  and system entries are dropped; \<^verbatim>\<open>Readable\<close> drops what the application may not read.
\<close>

definition entryList :: "Env \<Rightarrow> dirent list \<Rightarrow> dirent list" where
  "entryList env es =
     filter (\<lambda>e. entry_name e \<noteq> ''.'' \<and> entry_name e \<noteq> ''..'' \<and>
                \<not> isHidden env e \<and> \<not> isSystem (entry_node e) \<and> entry_readable e) es"

text \<open>
  The method takes the preview list so far and returns the new one. The \<^verbatim>\<open>foreach\<close>
  over the entries is \<open>LoadPreviewSongs_entries\<close>. The path is not needed to find the
  node: the recursive call on \<^verbatim>\<open>filename + "/" + entry\<close> is the call on the entry's node.
\<close>

function LoadPreviewSongs :: "Env \<Rightarrow> fsnode \<Rightarrow> Song list \<Rightarrow> Song list"
  and LoadPreviewSongs_entries :: "Env \<Rightarrow> dirent list \<Rightarrow> Song list \<Rightarrow> Song list" where
  "LoadPreviewSongs env (Dir es) songs =
     (if length songs \<ge> kNumberOfPreviews then songs
      else LoadPreviewSongs_entries env (entryList env es) songs)"
| "LoadPreviewSongs env (File song) songs =
     (if length songs \<ge> kNumberOfPreviews then songs
      else if is_valid song then songs @ [song] else songs)"
| "LoadPreviewSongs env (Special song) songs =
     (if length songs \<ge> kNumberOfPreviews then songs
      else if is_valid song then songs @ [song] else songs)"
| "LoadPreviewSongs_entries env [] songs = songs"
| "LoadPreviewSongs_entries env (e # es) songs =
     LoadPreviewSongs_entries env es (LoadPreviewSongs env (entry_node e) songs)"
  by pat_completeness auto
termination
proof (relation "measure (case_sum (\<lambda>(_, n, _). size n) (\<lambda>(_, es, _). size_list size es))")
  show "wf (measure (case_sum (\<lambda>(_, n, _). size n) (\<lambda>(_, es, _). size_list size es)))"
    by simp
next
  fix env :: Env and es :: "dirent list" and songs :: "Song list"
  have "size_list size (entryList env es) \<le> size_list size es"
    unfolding entryList_def by (induction es) auto
  then show "(Inr (env, entryList env es, songs), Inl (env, Dir es, songs))
        \<in> measure (case_sum (\<lambda>(_, n, _). size n) (\<lambda>(_, es, _). size_list size es))"
    by simp
next
  fix env :: Env and e :: dirent and es :: "dirent list" and songs :: "Song list"
  show "(Inl (env, entry_node e, songs), Inr (env, e # es, songs))
        \<in> measure (case_sum (\<lambda>(_, n, _). size n) (\<lambda>(_, es, _). size_list size es))"
    by (cases e) simp
next
  fix env :: Env and e :: dirent and es :: "dirent list" and songs :: "Song list"
  show "(Inr (env, es, LoadPreviewSongs env (entry_node e) songs), Inr (env, e # es, songs))
        \<in> measure (case_sum (\<lambda>(_, n, _). size n) (\<lambda>(_, es, _). size_list size es))"
    by simp
qed

section \<open>SetFilenames, SetSongs, SetUrls\<close>

text \<open>
  The \<^verbatim>\<open>for\<close> loop of \<^verbatim>\<open>SetFilenames\<close> runs over the indices below
  \<^verbatim>\<open>qMin(filenames_.count(), kNumberOfPreviews)\<close>, so every read \<^verbatim>\<open>filenames_[i]\<close>
  is in range.
\<close>

definition SetFilenames :: "Env \<Rightarrow> string list \<Rightarrow> quint64 \<Rightarrow> OrganiseDialog \<Rightarrow> OrganiseDialog" where
  "SetFilenames env filenames total_size d =
     (let d1 = d\<lparr>this_filenames := filenames, this_preview_songs := []\<rparr>;
          n = min (length (this_filenames d1)) kNumberOfPreviews;
          d2 = d1\<lparr>this_preview_songs :=
                    fold (\<lambda>i songs. LoadPreviewSongs env (node_at env (this_filenames d1 ! i)) songs)
                         [0..<n] (this_preview_songs d1)\<rparr>;
          d3 = d2\<lparr>ui_free_space := (ui_free_space d2)\<lparr>additional_bytes := total_size\<rparr>\<rparr>;
          d4 = d3\<lparr>this_total_size := total_size\<rparr>
      in UpdatePreviews env d4)"

text \<open>
  The \<^verbatim>\<open>foreach\<close> of \<^verbatim>\<open>SetSongs\<close>, on its two local variables. \<^verbatim>\<open>filesize()\<close>
  is a signed integer (the loop tests \<^verbatim>\<open>> 0\<close>); adding it to the \<^verbatim>\<open>quint64\<close>
  wraps at \<open>2 ^ 64\<close>.
\<close>

fun SetSongs_loop :: "Env \<Rightarrow> Song list \<Rightarrow> quint64 \<times> string list \<Rightarrow> quint64 \<times> string list" where
  "SetSongs_loop env [] acc = acc"
| "SetSongs_loop env (song # songs) (total_size, filenames) =
     (let url = QUrl_of env (filename song) in
      if isEmpty url then SetSongs_loop env songs (total_size, filenames)
      else if scheme url \<noteq> [] \<and> scheme url \<noteq> ''file''
      then SetSongs_loop env songs (total_size, filenames)
      else SetSongs_loop env songs
             (if filesize song > 0 then total_size + word_of_int (filesize song) else total_size,
              filenames @ [toLocalFile url]))"

definition SetSongs :: "Env \<Rightarrow> Song list \<Rightarrow> OrganiseDialog \<Rightarrow> OrganiseDialog" where
  "SetSongs env songs d =
     (case SetSongs_loop env songs (0, []) of
        (total_size, filenames) \<Rightarrow> SetFilenames env filenames total_size d)"

fun SetUrls_loop :: "QUrl list \<Rightarrow> string list \<Rightarrow> string list" where
  "SetUrls_loop [] filenames = filenames"
| "SetUrls_loop (url # urls) filenames =
     (if scheme url \<noteq> ''file'' then SetUrls_loop urls filenames
      else SetUrls_loop urls (filenames @ [toLocalFile url]))"

definition SetUrls :: "Env \<Rightarrow> QUrl list \<Rightarrow> quint64 \<Rightarrow> OrganiseDialog \<Rightarrow> OrganiseDialog" where
  "SetUrls env urls total_size d = SetFilenames env (SetUrls_loop urls []) total_size d"

section \<open>accept\<close>

text \<open>
  What \<^verbatim>\<open>accept\<close> acts on outside the dialog: the stored settings, the organise
  batches that have been started, and the dialog's result. An \<^verbatim>\<open>Organise\<close> is the
  arguments of its constructor (the task manager, fixed at the dialog's construction,
  apart); \<^verbatim>\<open>Start()\<close> appends it to the started batches.
\<close>

datatype QVariant = QString string | QBool bool

record Organise =
  org_destination :: "MusicStorage option"
  org_format :: OrganiseFormat
  org_copy :: bool
  org_overwrite :: bool
  org_files :: "string list"
  org_eject_after :: bool

record World =
  settings :: "string \<rightharpoonup> QVariant"
  started :: "Organise list"
  dialog_accepted :: bool

definition settings_key :: "string \<Rightarrow> string" where
  "settings_key k = kSettingsGroup @ ''/'' @ k"

definition destination_currentText :: "OrganiseDialog \<Rightarrow> string" where
  "destination_currentText d = (case current_destination d of None \<Rightarrow> [] | Some it \<Rightarrow> item_text it)"

definition accept_organise :: "OrganiseDialog \<Rightarrow> Organise" where
  "accept_organise d =
     (let destination = current_destination d;
          storage = destination_storage destination;
          copy = (ui_aftercopying_currentIndex d = 0)
      in \<lparr>org_destination = storage,
          org_format = this_format d,
          org_copy = copy,
          org_overwrite = ui_overwrite d,
          org_files = this_filenames d,
          org_eject_after = ui_eject_after d\<rparr>)"

definition accept :: "OrganiseDialog \<Rightarrow> World \<Rightarrow> World" where
  "accept d w =
     (let s = (settings w)
                (settings_key ''format'' \<mapsto> QString (ui_naming d),
                 settings_key ''replace_ascii'' \<mapsto> QBool (ui_replace_ascii d),
                 settings_key ''replace_spaces'' \<mapsto> QBool (ui_replace_spaces d),
                 settings_key ''replace_the'' \<mapsto> QBool (ui_replace_the d),
                 settings_key ''overwrite'' \<mapsto> QBool (ui_overwrite d),
                 settings_key ''destination'' \<mapsto> QString (destination_currentText d),
                 settings_key ''eject_after'' \<mapsto> QBool (ui_eject_after d));
          organise = accept_organise d
      in w\<lparr>settings := s, started := started w @ [organise], dialog_accepted := True\<rparr>)"

section \<open>The states of the dialog\<close>

text \<open>
  The constructor leaves the filename list and the preview list empty and the total size
  at 0; the widgets are as the form file sets them up, which is not fixed here. From
  there the dialog changes through its methods, through the user's edits of the widgets
  (the connected ones run \<^verbatim>\<open>UpdatePreviews\<close>), and through changes of the destination
  model.
\<close>

inductive reachable :: "Env \<Rightarrow> OrganiseDialog \<Rightarrow> bool" for env :: Env where
  constructed:
    "this_filenames d = [] \<Longrightarrow> this_preview_songs d = [] \<Longrightarrow> this_total_size d = 0 \<Longrightarrow>
     reachable env d"
| after_SetSongs: "reachable env d \<Longrightarrow> reachable env (SetSongs env songs d)"
| after_SetUrls: "reachable env d \<Longrightarrow> reachable env (SetUrls env urls total_size d)"
| after_SetFilenames: "reachable env d \<Longrightarrow> reachable env (SetFilenames env filenames total_size d)"
| after_SetCopy: "reachable env d \<Longrightarrow> reachable env (SetCopy copy d)"
| after_Reset: "reachable env d \<Longrightarrow> reachable env (Reset env d)"
| after_UpdatePreviews: "reachable env d \<Longrightarrow> reachable env (UpdatePreviews env d)"
| naming_edited: "reachable env d \<Longrightarrow> reachable env (naming_setPlainText env t d)"
| replace_ascii_toggled: "reachable env d \<Longrightarrow> reachable env (replace_ascii_setChecked env b d)"
| replace_spaces_toggled: "reachable env d \<Longrightarrow> reachable env (replace_spaces_setChecked env b d)"
| replace_the_toggled: "reachable env d \<Longrightarrow> reachable env (replace_the_setChecked env b d)"
| destination_chosen: "reachable env d \<Longrightarrow> reachable env (destination_setCurrentIndex env i d)"
| destination_model_changed: "reachable env d \<Longrightarrow> reachable env (d\<lparr>ui_destination_model := m\<rparr>)"
| overwrite_toggled: "reachable env d \<Longrightarrow> reachable env (d\<lparr>ui_overwrite := b\<rparr>)"
| eject_after_toggled: "reachable env d \<Longrightarrow> reachable env (d\<lparr>ui_eject_after := b\<rparr>)"
| aftercopying_chosen: "reachable env d \<Longrightarrow> reachable env (d\<lparr>ui_aftercopying_currentIndex := i\<rparr>)"

section \<open>The format template\<close>

text \<open>
  Modelled from the spec: \<^verbatim>\<open>OrganiseFormat::GetFilenameForSong\<close> (core/organise*.cpp)
  is not among the sources, so the compiled template and the evaluation of its segments
  follow sections 3 and 4.1 of the specification: a template is an ordered sequence of
  segments (literal, tag reference, conditional block); an absent field is an empty
  string or a zero; a block is emitted when every tag reference strictly inside it (not
  inside a nested block) resolves to a non-empty value, and omitted whole otherwise.
  Parsing the template string and the sanitisation applied after the segments are
  evaluated are not modelled.
\<close>

datatype Tag =
  Tag_title | Tag_album | Tag_artist | Tag_artistinitial | Tag_albumartist | Tag_composer
| Tag_track | Tag_disc | Tag_bpm | Tag_year | Tag_genre | Tag_comment | Tag_length
| Tag_bitrate | Tag_samplerate | Tag_extension

record MetadataRecord =
  artist :: string
  album :: string
  albumArtist :: string
  composer :: string
  title :: string
  genre :: string
  comment :: string
  extension :: string
  track :: nat
  disc :: nat
  bpm :: nat
  year :: nat
  lengthSeconds :: nat
  bitrate :: nat
  sampleRate :: nat
  artistInitial :: string

datatype segment = Literal string | TagRef Tag | Block "segment list"

definition digit :: "nat \<Rightarrow> char" where
  "digit n = ''0123456789'' ! (n mod 10)"

fun decimal :: "nat \<Rightarrow> string" where
  "decimal n = (if n < 10 then [digit n] else decimal (n div 10) @ [digit (n mod 10)])"

definition two_digits :: "nat \<Rightarrow> string" where
  "two_digits n = [digit (n div 10), digit n]"

text \<open>A numeric field that is zero is absent; otherwise it is written without leading zeros.\<close>

definition numeric_field :: "nat \<Rightarrow> string" where
  "numeric_field n = (if n = 0 then [] else decimal n)"

text \<open>\<^verbatim>\<open>H:MM:SS\<close> from one hour on, \<^verbatim>\<open>MM:SS\<close> below.\<close>

definition length_field :: "nat \<Rightarrow> string" where
  "length_field secs =
     (if secs = 0 then []
      else if secs div 3600 > 0
      then decimal (secs div 3600) @ '':'' @ two_digits (secs div 60 mod 60) @ '':'' @ two_digits (secs mod 60)
      else two_digits (secs div 60) @ '':'' @ two_digits (secs mod 60))"

text \<open>
  Modelled from the spec: how a tag segment resolves its field of the record (section 4.1);
  an absent field resolves to the empty string.
\<close>

fun resolve :: "MetadataRecord \<Rightarrow> Tag \<Rightarrow> string" where
  "resolve R Tag_title = title R"
| "resolve R Tag_album = album R"
| "resolve R Tag_artist = artist R"
| "resolve R Tag_artistinitial = artistInitial R"
| "resolve R Tag_albumartist = albumArtist R"
| "resolve R Tag_composer = composer R"
| "resolve R Tag_track = numeric_field (track R)"
| "resolve R Tag_disc = numeric_field (disc R)"
| "resolve R Tag_bpm = numeric_field (bpm R)"
| "resolve R Tag_year = numeric_field (year R)"
| "resolve R Tag_genre = genre R"
| "resolve R Tag_comment = comment R"
| "resolve R Tag_length = length_field (lengthSeconds R)"
| "resolve R Tag_bitrate = numeric_field (bitrate R)"
| "resolve R Tag_samplerate = numeric_field (sampleRate R)"
| "resolve R Tag_extension = extension R"

text \<open>The tag references strictly inside a block: those of nested blocks are not counted.\<close>

fun direct_tags :: "segment list \<Rightarrow> Tag list" where
  "direct_tags [] = []"
| "direct_tags (TagRef t # segs) = t # direct_tags segs"
| "direct_tags (_ # segs) = direct_tags segs"

text \<open>
  Modelled from the spec: the evaluation of one segment (section 4.1), which stands for
  the missing \<^verbatim>\<open>OrganiseFormat::GetFilenameForSong\<close> before sanitisation.
\<close>

fun evaluate :: "MetadataRecord \<Rightarrow> segment \<Rightarrow> string" where
  "evaluate R (Literal s) = s"
| "evaluate R (TagRef t) = resolve R t"
| "evaluate R (Block segs) =
     (if list_all (\<lambda>t. resolve R t \<noteq> []) (direct_tags segs)
      then concat (map (evaluate R) segs) else [])"

definition Instantiate_segments :: "segment list \<Rightarrow> MetadataRecord \<Rightarrow> string" where
  "Instantiate_segments T R = concat (map (evaluate R) T)"

declare decimal.simps [simp del]

section \<open>What a directory expands to\<close>

text \<open>
  The reference for the expansion of a preview argument: the files contained in a
  directory, found recursively through those of its entries that are readable, not
  hidden, not system entries and not named \<^verbatim>\<open>.\<close> or \<^verbatim>\<open>..\<close>, in listing order;
  anything that is not a directory stands for itself. Each file is given as the song read
  from it.
\<close>

fun contained_files :: "Env \<Rightarrow> fsnode \<Rightarrow> Song list"
  and contained_files_entries :: "Env \<Rightarrow> dirent list \<Rightarrow> Song list" where
  "contained_files env (File song) = [song]"
| "contained_files env (Special song) = [song]"
| "contained_files env (Dir es) = contained_files_entries env es"
| "contained_files_entries env [] = []"
| "contained_files_entries env (Dirent name readable hidden node # es) =
     (if readable \<and> name \<noteq> ''.'' \<and> name \<noteq> ''..'' \<and>
         \<not> (hidden \<or> (dot_names_hidden env \<and> take 1 name = ''.'')) \<and> \<not> isSystem node
      then contained_files env node else [])
     @ contained_files_entries env es"

section \<open>A worked example\<close>

text \<open>
  Concrete values on which the theorems below are run: a stand-in for each parameter of
  \<open>Env\<close>, a small music directory, and a dialog with a local and a remote destination.
\<close>

definition example_QUrl :: "string \<Rightarrow> QUrl" where
  "example_QUrl s =
     (if s = [] then \<lparr>isEmpty = True, scheme = [], toLocalFile = []\<rparr>
      else if take 7 s = ''file://'' then \<lparr>isEmpty = False, scheme = ''file'', toLocalFile = drop 7 s\<rparr>
      else if take 7 s = ''http://'' then \<lparr>isEmpty = False, scheme = ''http'', toLocalFile = []\<rparr>
      else \<lparr>isEmpty = False, scheme = [], toLocalFile = s\<rparr>)"

definition example_song :: "string \<Rightarrow> int \<Rightarrow> Song" where
  "example_song name sz = \<lparr>filename = name, filesize = sz, is_valid = True\<rparr>"

definition example_unreadable :: "string \<Rightarrow> Song" where
  "example_unreadable name = \<lparr>filename = name, filesize = - 1, is_valid = False\<rparr>"

definition example_music :: fsnode where
  "example_music =
     Dir [Dirent ''..'' True False (Dir [Dirent ''up.mp3'' True False (File (example_song ''/up.mp3'' 1))]),
          Dirent ''.hidden.mp3'' True False (File (example_song ''/music/.hidden.mp3'' 3000)),
          Dirent ''.Trash-1000'' True False
            (Dir [Dirent ''old.mp3'' True False (File (example_song ''/music/.Trash-1000/old.mp3'' 2))]),
          Dirent ''a.mp3'' True False (File (example_song ''/music/a.mp3'' 4000)),
          Dirent ''cover.jpg'' True False (File (example_unreadable ''/music/cover.jpg'')),
          Dirent ''marked.mp3'' True True (File (example_song ''/music/marked.mp3'' 5)),
          Dirent ''pipe.mp3'' True False (Special (example_song ''/music/pipe.mp3'' 6)),
          Dirent ''private'' False False
            (Dir [Dirent ''p.mp3'' True False (File (example_song ''/music/private/p.mp3'' 7))]),
          Dirent ''live'' True False
            (Dir [Dirent ''b.mp3'' True False (File (example_song ''/music/live/b.mp3'' 5000))])]"

definition example_node_at :: "string \<Rightarrow> fsnode" where
  "example_node_at p = (if p = ''/music'' then example_music else Special (example_unreadable p))"

definition example_env :: Env where
  "example_env =
     \<lparr>IsValid = (\<lambda>f. CHR ''%'' \<in> set (format f)),
      GetFilenameForSong = (\<lambda>f song. filename song),
      toNativeSeparators = (\<lambda>p. p),
      QUrl_of = example_QUrl,
      node_at = example_node_at,
      dot_names_hidden = True\<rparr>"

definition example_dialog :: OrganiseDialog where
  "example_dialog =
     \<lparr>ui_destination_model =
        [\<lparr>item_text = ''USB stick'', Role_Storage = Some \<lparr>LocalPath = ''/mnt/usb''\<rparr>,
          Role_Capacity = 1000, Role_FreeSpace = 500\<rparr>,
         \<lparr>item_text = ''Phone'', Role_Storage = Some \<lparr>LocalPath = []\<rparr>,
          Role_Capacity = 0, Role_FreeSpace = 0\<rparr>],
      ui_destination_currentIndex = 0,
      ui_naming = ''%artist/%title'',
      ui_replace_ascii = False,
      ui_replace_spaces = True,
      ui_replace_the = False,
      ui_overwrite = False,
      ui_eject_after = True,
      ui_aftercopying_currentIndex = 1,
      ui_free_space = \<lparr>bar_visible = False, free_bytes = 0, total_bytes = 0, additional_bytes = 0\<rparr>,
      ui_ok_enabled = False,
      ui_preview = [''stale''],
      ui_preview_group_visible = True,
      ui_naming_group_visible = True,
      this_format = \<lparr>format = [], replace_non_ascii = False, replace_spaces = False, replace_the = False\<rparr>,
      this_filenames = [''/music''],
      this_preview_songs = [example_song ''/music/a.mp3'' 4000],
      this_total_size = 300\<rparr>"

definition example_world :: World where
  "example_world = \<lparr>settings = Map.empty, started = [], dialog_accepted = False\<rparr>"

definition example_record :: MetadataRecord where
  "example_record =
     \<lparr>artist = ''Artist'', album = ''Album'', albumArtist = [], composer = [], title = ''Title'',
      genre = [], comment = [], extension = ''mp3'', track = 0, disc = 2, bpm = 0, year = 0,
      lengthSeconds = 0, bitrate = 0, sampleRate = 0, artistInitial = ''A''\<rparr>"

lemmas example_defs =
  example_dialog_def example_env_def example_QUrl_def example_song_def example_unreadable_def
  example_music_def example_node_at_def example_world_def example_record_def

lemmas dialog_defs =
  UpdatePreviews_def current_destination_def destination_storage_def destination_capacity_def
  destination_free_def update_free_space_bar_def widgets_format_def preview_items_def Let_def

section \<open>What UpdatePreviews changes and what it leaves\<close>

lemma UpdatePreviews_frame:
  "ui_destination_model (UpdatePreviews env d) = ui_destination_model d"
  "ui_destination_currentIndex (UpdatePreviews env d) = ui_destination_currentIndex d"
  "ui_naming (UpdatePreviews env d) = ui_naming d"
  "ui_replace_ascii (UpdatePreviews env d) = ui_replace_ascii d"
  "ui_replace_spaces (UpdatePreviews env d) = ui_replace_spaces d"
  "ui_replace_the (UpdatePreviews env d) = ui_replace_the d"
  "ui_overwrite (UpdatePreviews env d) = ui_overwrite d"
  "ui_eject_after (UpdatePreviews env d) = ui_eject_after d"
  "ui_aftercopying_currentIndex (UpdatePreviews env d) = ui_aftercopying_currentIndex d"
  "this_filenames (UpdatePreviews env d) = this_filenames d"
  "this_preview_songs (UpdatePreviews env d) = this_preview_songs d"
  "this_total_size (UpdatePreviews env d) = this_total_size d"
  by (simp_all add: UpdatePreviews_def Let_def)

lemma UpdatePreviews_format: "this_format (UpdatePreviews env d) = widgets_format d"
  by (simp add: UpdatePreviews_def Let_def widgets_format_def)

lemma UpdatePreviews_ok:
  "ui_ok_enabled (UpdatePreviews env d) \<longleftrightarrow>
     IsValid env (widgets_format d) \<and> destination_storage (current_destination d) \<noteq> None \<and>
     this_filenames d \<noteq> [] \<and>
     \<not> (destination_capacity (current_destination d) \<noteq> 0 \<and>
        this_total_size d > destination_free (current_destination d))"
  by (simp add: UpdatePreviews_def Let_def widgets_format_def)

lemma current_destination_UpdatePreviews:
  "current_destination (UpdatePreviews env d) = current_destination d"
  by (simp add: current_destination_def UpdatePreviews_frame Let_def)

lemma widgets_format_UpdatePreviews:
  "widgets_format (UpdatePreviews env d) = widgets_format d"
  by (simp add: widgets_format_def UpdatePreviews_frame)

lemma current_destination_total_size:
  "current_destination (d\<lparr>this_total_size := t\<rparr>) = current_destination d"
  by (simp add: current_destination_def Let_def)

lemma widgets_format_total_size:
  "widgets_format (d\<lparr>this_total_size := t\<rparr>) = widgets_format d"
  by (simp add: widgets_format_def)

text \<open>
  After \<^verbatim>\<open>UpdatePreviews\<close> the member \<^verbatim>\<open>format_\<close> holds what the naming field and
  the three check boxes show, and every operation that changes one of them runs
  \<^verbatim>\<open>UpdatePreviews\<close>: once established, the agreement is kept.
\<close>

lemma format_synced:
  "this_format (UpdatePreviews env d) = widgets_format (UpdatePreviews env d)"
  by (simp add: UpdatePreviews_format widgets_format_UpdatePreviews)

lemma format_synced_setters:
  "this_format (naming_setPlainText env t d) = widgets_format (naming_setPlainText env t d)"
  "this_format d = widgets_format d \<Longrightarrow>
     this_format (replace_ascii_setChecked env b d) = widgets_format (replace_ascii_setChecked env b d)"
  "this_format d = widgets_format d \<Longrightarrow>
     this_format (replace_spaces_setChecked env b d) = widgets_format (replace_spaces_setChecked env b d)"
  "this_format d = widgets_format d \<Longrightarrow>
     this_format (replace_the_setChecked env b d) = widgets_format (replace_the_setChecked env b d)"
  "this_format d = widgets_format d \<Longrightarrow>
     this_format (destination_setCurrentIndex env i d) = widgets_format (destination_setCurrentIndex env i d)"
  "this_format (SetFilenames env fs sz d) = widgets_format (SetFilenames env fs sz d)"
  "this_format d = widgets_format d \<Longrightarrow> this_format (SetCopy c d) = widgets_format (SetCopy c d)"
  by (simp_all add: naming_setPlainText_def replace_ascii_setChecked_def replace_spaces_setChecked_def
      replace_the_setChecked_def destination_setCurrentIndex_def SetFilenames_def SetCopy_def
      format_synced Let_def)
     (simp add: widgets_format_def)

lemma format_synced_Reset:
  "this_format (Reset env d) = widgets_format (Reset env d)"
proof -
  have "this_format (replace_the_setChecked env False (replace_spaces_setChecked env False
          (replace_ascii_setChecked env False (naming_setPlainText env kDefaultFormat d)))) =
        widgets_format (replace_the_setChecked env False (replace_spaces_setChecked env False
          (replace_ascii_setChecked env False (naming_setPlainText env kDefaultFormat d))))"
    by (intro format_synced_setters)
  then show ?thesis by (simp add: Reset_def Let_def widgets_format_def)
qed

section \<open>The Ok button\<close>

text \<open>
  Claim C1. In the dialog that \<^verbatim>\<open>UpdatePreviews\<close> leaves, whatever the dialog it was
  called on, the Ok button is enabled exactly when the compiled template (which is the
  one the widgets show) is valid, a storage is selected, the list of source filenames is
  not empty, and it is not the case that the capacity is non-zero while the total size
  exceeds the free space. In particular the button is disabled while the template is
  invalid, and while the total size exceeds the free space of a target that reports a
  capacity.
\<close>

theorem ok_button_enabled_iff:
  "let d' = UpdatePreviews env d; dest = current_destination d' in
     this_format d' = widgets_format d' \<and>
     (ui_ok_enabled d' \<longleftrightarrow>
        IsValid env (this_format d') \<and> destination_storage dest \<noteq> None \<and>
        this_filenames d' \<noteq> [] \<and>
        \<not> (destination_capacity dest \<noteq> 0 \<and> this_total_size d' > destination_free dest)) \<and>
     (\<not> IsValid env (this_format d') \<longrightarrow> \<not> ui_ok_enabled d') \<and>
     (destination_capacity dest \<noteq> 0 \<and> this_total_size d' > destination_free dest
        \<longrightarrow> \<not> ui_ok_enabled d')"
  by (simp add: Let_def UpdatePreviews_ok UpdatePreviews_format current_destination_UpdatePreviews
      widgets_format_UpdatePreviews UpdatePreviews_frame)

theorem ok_button_enabled_iff_witness:
  "ui_ok_enabled (UpdatePreviews example_env example_dialog) \<and>
   (\<not> IsValid example_env
        (this_format (UpdatePreviews example_env (example_dialog\<lparr>ui_naming := ''music/file.mp3''\<rparr>))) \<and>
    \<not> ui_ok_enabled (UpdatePreviews example_env (example_dialog\<lparr>ui_naming := ''music/file.mp3''\<rparr>))) \<and>
   (destination_capacity (current_destination example_dialog) \<noteq> 0 \<and>
    destination_free (current_destination example_dialog) < 900 \<and>
    \<not> ui_ok_enabled (UpdatePreviews example_env (example_dialog\<lparr>this_total_size := 900\<rparr>)))"
proof -
  have valid: "IsValid example_env
      (this_format (UpdatePreviews example_env example_dialog))"
    by (simp add: dialog_defs example_defs)
  have ok: "ui_ok_enabled (UpdatePreviews example_env example_dialog)"
    using ok_button_enabled_iff [of example_env example_dialog] valid
    by (simp add: Let_def UpdatePreviews_frame current_destination_UpdatePreviews)
       (simp add: dialog_defs example_defs)
  have invalid: "\<not> IsValid example_env
      (this_format (UpdatePreviews example_env (example_dialog\<lparr>ui_naming := ''music/file.mp3''\<rparr>)))"
    by (simp add: dialog_defs example_defs)
  have off1: "\<not> ui_ok_enabled (UpdatePreviews example_env (example_dialog\<lparr>ui_naming := ''music/file.mp3''\<rparr>))"
    using ok_button_enabled_iff [of example_env "example_dialog\<lparr>ui_naming := ''music/file.mp3''\<rparr>"] invalid
    by (simp add: Let_def)
  have full: "destination_capacity (current_destination example_dialog) \<noteq> 0 \<and>
      destination_free (current_destination example_dialog) < 900"
    by (simp add: dialog_defs example_defs)
  have off2: "\<not> ui_ok_enabled (UpdatePreviews example_env (example_dialog\<lparr>this_total_size := 900\<rparr>))"
    using ok_button_enabled_iff [of example_env "example_dialog\<lparr>this_total_size := 900\<rparr>"] full
    by (simp add: Let_def UpdatePreviews_frame current_destination_UpdatePreviews
        current_destination_total_size)
  from ok invalid off1 full off2 show ?thesis by simp
qed

text \<open>
  Claim C4. For a target whose reported capacity is 0 the comparison with the free space
  is skipped: whatever the total size, the Ok button is enabled exactly when the template
  is valid, a storage is selected and there are source filenames.
\<close>

theorem zero_capacity_skips_space_check:
  "destination_capacity (current_destination d) = 0 \<Longrightarrow>
     ui_ok_enabled (UpdatePreviews env (d\<lparr>this_total_size := t\<rparr>)) =
       (IsValid env (widgets_format d) \<and> destination_storage (current_destination d) \<noteq> None \<and>
        this_filenames d \<noteq> [])"
  by (simp add: UpdatePreviews_ok current_destination_total_size widgets_format_total_size)

theorem zero_capacity_skips_space_check_witness:
  "destination_capacity (current_destination (example_dialog\<lparr>ui_destination_currentIndex := 1\<rparr>)) = 0 \<and>
   destination_free (current_destination (example_dialog\<lparr>ui_destination_currentIndex := 1\<rparr>)) = 0 \<and>
   ui_ok_enabled (UpdatePreviews example_env
     (example_dialog\<lparr>ui_destination_currentIndex := 1, this_total_size := 1000000000000\<rparr>))"
proof -
  let ?d = "example_dialog\<lparr>ui_destination_currentIndex := 1\<rparr>"
  have h: "destination_capacity (current_destination ?d) = 0"
    by (simp add: dialog_defs example_defs)
  have f: "destination_free (current_destination ?d) = 0"
    by (simp add: dialog_defs example_defs)
  have r: "IsValid example_env (widgets_format ?d) \<and>
      destination_storage (current_destination ?d) \<noteq> None \<and> this_filenames ?d \<noteq> []"
    by (simp add: dialog_defs example_defs)
  from zero_capacity_skips_space_check [OF h, of example_env 1000000000000] h f r
  show ?thesis by simp
qed

text \<open>
  Claim C10. When the template is invalid, \<^verbatim>\<open>UpdatePreviews\<close> disables the Ok button
  and returns before it touches the preview: the preview list and the visibility of the
  preview group and of the naming group are what they were before the call.
\<close>

theorem invalid_template_leaves_preview:
  "\<not> IsValid env (widgets_format d) \<Longrightarrow>
     \<not> ui_ok_enabled (UpdatePreviews env d) \<and>
     ui_preview (UpdatePreviews env d) = ui_preview d \<and>
     ui_preview_group_visible (UpdatePreviews env d) = ui_preview_group_visible d \<and>
     ui_naming_group_visible (UpdatePreviews env d) = ui_naming_group_visible d"
  by (simp add: UpdatePreviews_def Let_def widgets_format_def)

theorem invalid_template_leaves_preview_witness:
  "\<not> IsValid example_env (widgets_format (example_dialog\<lparr>ui_naming := ''music/file.mp3''\<rparr>)) \<and>
   \<not> ui_ok_enabled (UpdatePreviews example_env (example_dialog\<lparr>ui_naming := ''music/file.mp3''\<rparr>)) \<and>
   ui_preview (UpdatePreviews example_env (example_dialog\<lparr>ui_naming := ''music/file.mp3''\<rparr>)) = [''stale''] \<and>
   ui_preview_group_visible (UpdatePreviews example_env (example_dialog\<lparr>ui_naming := ''music/file.mp3''\<rparr>))"
proof -
  let ?d = "example_dialog\<lparr>ui_naming := ''music/file.mp3''\<rparr>"
  have h: "\<not> IsValid example_env (widgets_format ?d)"
    by (simp add: dialog_defs example_defs)
  have before: "ui_preview ?d = [''stale''] \<and> ui_preview_group_visible ?d"
    by (simp add: example_defs)
  from invalid_template_leaves_preview [OF h] h before show ?thesis by simp
qed

section \<open>Reset\<close>

lemma naming_setPlainText_frame:
  "ui_naming (naming_setPlainText env t d) = t"
  "ui_replace_ascii (naming_setPlainText env t d) = ui_replace_ascii d"
  "ui_replace_spaces (naming_setPlainText env t d) = ui_replace_spaces d"
  "ui_replace_the (naming_setPlainText env t d) = ui_replace_the d"
  by (simp_all add: naming_setPlainText_def UpdatePreviews_frame)

lemma replace_ascii_setChecked_frame:
  "ui_naming (replace_ascii_setChecked env b d) = ui_naming d"
  "ui_replace_ascii (replace_ascii_setChecked env b d) = b"
  "ui_replace_spaces (replace_ascii_setChecked env b d) = ui_replace_spaces d"
  "ui_replace_the (replace_ascii_setChecked env b d) = ui_replace_the d"
  by (auto simp add: replace_ascii_setChecked_def UpdatePreviews_frame)

lemma replace_spaces_setChecked_frame:
  "ui_naming (replace_spaces_setChecked env b d) = ui_naming d"
  "ui_replace_ascii (replace_spaces_setChecked env b d) = ui_replace_ascii d"
  "ui_replace_spaces (replace_spaces_setChecked env b d) = b"
  "ui_replace_the (replace_spaces_setChecked env b d) = ui_replace_the d"
  by (auto simp add: replace_spaces_setChecked_def UpdatePreviews_frame)

lemma replace_the_setChecked_frame:
  "ui_naming (replace_the_setChecked env b d) = ui_naming d"
  "ui_replace_ascii (replace_the_setChecked env b d) = ui_replace_ascii d"
  "ui_replace_spaces (replace_the_setChecked env b d) = ui_replace_spaces d"
  "ui_replace_the (replace_the_setChecked env b d) = b"
  by (auto simp add: replace_the_setChecked_def UpdatePreviews_frame)

text \<open>
  Claim C6. The default naming template is
  \<^verbatim>\<open>%artist/%album{ (Disc %disc)}/{%track - }%title.%extension\<close>, and \<^verbatim>\<open>Reset\<close> leaves
  the naming field at this default, the three replace flags unset, the overwrite flag set
  and the eject-after flag unset. The slot runs that the setters trigger on the way do
  not disturb any of them.
\<close>

theorem Reset_restores_defaults:
  "kDefaultFormat = ''%artist/%album{ (Disc %disc)}/{%track - }%title.%extension'' \<and>
   ui_naming (Reset env d) = kDefaultFormat \<and>
   ui_replace_ascii (Reset env d) = False \<and>
   ui_replace_spaces (Reset env d) = False \<and>
   ui_replace_the (Reset env d) = False \<and>
   ui_overwrite (Reset env d) = True \<and>
   ui_eject_after (Reset env d) = False"
  by (simp add: Reset_def Let_def kDefaultFormat_def naming_setPlainText_frame
      replace_ascii_setChecked_frame replace_spaces_setChecked_frame replace_the_setChecked_frame)

theorem Reset_restores_defaults_witness:
  "ui_replace_spaces example_dialog \<and> \<not> ui_overwrite example_dialog \<and> ui_eject_after example_dialog \<and>
   ui_naming (Reset example_env example_dialog) =
     ''%artist/%album{ (Disc %disc)}/{%track - }%title.%extension'' \<and>
   \<not> ui_replace_ascii (Reset example_env example_dialog) \<and>
   \<not> ui_replace_spaces (Reset example_env example_dialog) \<and>
   \<not> ui_replace_the (Reset example_env example_dialog) \<and>
   ui_overwrite (Reset example_env example_dialog) \<and>
   \<not> ui_eject_after (Reset example_env example_dialog)"
proof -
  have before: "ui_replace_spaces example_dialog \<and> \<not> ui_overwrite example_dialog \<and>
      ui_eject_after example_dialog"
    by (simp add: example_dialog_def)
  from Reset_restores_defaults [of example_env example_dialog] before
  show ?thesis by simp
qed

section \<open>The preview songs\<close>

lemma contained_files_entries_entryList:
  "contained_files_entries env es =
     concat (map (\<lambda>e. contained_files env (entry_node e)) (entryList env es))"
proof (induction es)
  case Nil
  show ?case by (simp add: entryList_def)
next
  case (Cons e es)
  then show ?case by (cases e) (auto simp add: entryList_def isHidden_def)
qed

lemma cap_arith: "k - (n + min a (k - n)) = k - (n + (a::nat))"
  by arith

text \<open>
  One call appends, of the valid songs among the files the argument expands to, as many
  as still fit below \<open>kNumberOfPreviews\<close>.
\<close>

lemma LoadPreviewSongs_char:
  "LoadPreviewSongs env node songs =
     songs @ take (kNumberOfPreviews - length songs) (filter is_valid (contained_files env node))"
  "LoadPreviewSongs_entries env es songs =
     songs @ take (kNumberOfPreviews - length songs)
               (filter is_valid (concat (map (\<lambda>e. contained_files env (entry_node e)) es)))"
proof (induction env node songs and env es songs
    rule: LoadPreviewSongs_LoadPreviewSongs_entries.induct)
  case (1 env es songs)
  then show ?case by (simp add: contained_files_entries_entryList)
next
  case (2 env song songs)
  then show ?case by (cases "kNumberOfPreviews - length songs") auto
next
  case (3 env song songs)
  then show ?case by (cases "kNumberOfPreviews - length songs") auto
next
  case (4 env songs)
  then show ?case by simp
next
  case (5 env e es songs)
  have "LoadPreviewSongs_entries env (e # es) songs =
          LoadPreviewSongs_entries env es (LoadPreviewSongs env (entry_node e) songs)"
    by simp
  also have "\<dots> = LoadPreviewSongs env (entry_node e) songs @
      take (kNumberOfPreviews - length (LoadPreviewSongs env (entry_node e) songs))
        (filter is_valid (concat (map (\<lambda>e. contained_files env (entry_node e)) es)))"
    by (rule "5.IH"(2))
  also have "\<dots> = songs @ take (kNumberOfPreviews - length songs)
        (filter is_valid (concat (map (\<lambda>e. contained_files env (entry_node e)) (e # es))))"
    by (simp add: "5.IH"(1) cap_arith)
  finally show ?case .
qed

lemma fold_index:
  "n \<le> length xs \<Longrightarrow> fold (\<lambda>i acc. g (xs ! i) acc) [0..<n] acc = fold g (take n xs) acc"
proof (induction n)
  case 0
  show ?case by simp
next
  case (Suc n)
  then show ?case by (simp add: take_Suc_conv_app_nth)
qed

lemma fold_LoadPreviewSongs:
  "fold (\<lambda>p songs. LoadPreviewSongs env (f p) songs) ps songs =
     songs @ take (kNumberOfPreviews - length songs)
               (filter is_valid (concat (map (\<lambda>p. contained_files env (f p)) ps)))"
proof (induction ps arbitrary: songs)
  case Nil
  show ?case by simp
next
  case (Cons p ps)
  have "fold (\<lambda>p songs. LoadPreviewSongs env (f p) songs) (p # ps) songs =
        fold (\<lambda>p songs. LoadPreviewSongs env (f p) songs) ps (LoadPreviewSongs env (f p) songs)"
    by simp
  also have "\<dots> = LoadPreviewSongs env (f p) songs @
      take (kNumberOfPreviews - length (LoadPreviewSongs env (f p) songs))
        (filter is_valid (concat (map (\<lambda>p. contained_files env (f p)) ps)))"
    by (rule Cons.IH)
  also have "\<dots> = songs @ take (kNumberOfPreviews - length songs)
        (filter is_valid (concat (map (\<lambda>p. contained_files env (f p)) (p # ps))))"
    by (simp add: LoadPreviewSongs_char(1) cap_arith)
  finally show ?case .
qed

lemma SetFilenames_frame:
  "this_filenames (SetFilenames env fs t d) = fs"
  "this_total_size (SetFilenames env fs t d) = t"
  by (simp_all add: SetFilenames_def Let_def UpdatePreviews_frame)

lemma SetFilenames_preview_songs:
  "this_preview_songs (SetFilenames env fs t d) =
     take kNumberOfPreviews
       (filter is_valid
          (concat (map (\<lambda>p. contained_files env (node_at env p)) (take kNumberOfPreviews fs))))"
proof -
  have "this_preview_songs (SetFilenames env fs t d) =
      fold (\<lambda>i songs. LoadPreviewSongs env (node_at env (fs ! i)) songs)
        [0..<min (length fs) kNumberOfPreviews] []"
    by (simp add: SetFilenames_def Let_def UpdatePreviews_frame)
  also have "\<dots> = fold (\<lambda>p songs. LoadPreviewSongs env (node_at env p) songs)
        (take (min (length fs) kNumberOfPreviews) fs) []"
    by (rule fold_index) simp
  also have "take (min (length fs) kNumberOfPreviews) fs = take kNumberOfPreviews fs"
    by (simp add: min_def)
  finally show ?thesis by (simp add: fold_LoadPreviewSongs)
qed

text \<open>
  Claim C7, as stated, has a directory expanded into its readable contained files and
  subdirectories, \<^verbatim>\<open>.\<close> and \<^verbatim>\<open>..\<close> alone excluded. The listing that
  \<^verbatim>\<open>LoadPreviewSongs\<close> asks for leaves out more: hidden entries. In the directory below,
  on a platform where a leading dot hides a name, \<^verbatim>\<open>.hidden.mp3\<close> is a readable
  contained file, is not \<^verbatim>\<open>.\<close> or \<^verbatim>\<open>..\<close>, and holds a valid song; the directory is
  expanded to \<^verbatim>\<open>a.mp3\<close> only, and the hidden song is not loaded.
\<close>

theorem hidden_entry_not_expanded_counterexample:
  "entry_readable (Dirent ''.hidden.mp3'' True False (File (example_song ''/music/.hidden.mp3'' 3000))) \<and>
   entry_name (Dirent ''.hidden.mp3'' True False (File (example_song ''/music/.hidden.mp3'' 3000))) \<noteq> ''.'' \<and>
   entry_name (Dirent ''.hidden.mp3'' True False (File (example_song ''/music/.hidden.mp3'' 3000))) \<noteq> ''..'' \<and>
   is_valid (example_song ''/music/.hidden.mp3'' 3000) \<and>
   LoadPreviewSongs example_env
     (Dir [Dirent ''.hidden.mp3'' True False (File (example_song ''/music/.hidden.mp3'' 3000)),
           Dirent ''a.mp3'' True False (File (example_song ''/music/a.mp3'' 4000))]) [] =
     [example_song ''/music/a.mp3'' 4000] \<and>
   example_song ''/music/.hidden.mp3'' 3000 \<notin>
     set (LoadPreviewSongs example_env
       (Dir [Dirent ''.hidden.mp3'' True False (File (example_song ''/music/.hidden.mp3'' 3000)),
             Dirent ''a.mp3'' True False (File (example_song ''/music/a.mp3'' 4000))]) [])"
  by (simp add: entryList_def isHidden_def kNumberOfPreviews_def example_env_def example_song_def)

text \<open>
  Claim C7, amended. A directory given to \<^verbatim>\<open>LoadPreviewSongs\<close> is expanded,
  recursively, into the files found through those of its entries that are readable, not
  hidden, not system entries, and not \<^verbatim>\<open>.\<close> or \<^verbatim>\<open>..\<close>, and only files have their
  metadata read; a file whose song is not valid is skipped and the files after it are
  still processed: the call appends the valid songs of the expansion, in order, up to the
  preview limit. \<^verbatim>\<open>SetFilenames\<close> does so for its first filenames.
\<close>

theorem LoadPreviewSongs_expands_and_skips:
  "LoadPreviewSongs env node songs =
     songs @ take (kNumberOfPreviews - length songs) (filter is_valid (contained_files env node)) \<and>
   contained_files env (Dir es) =
     concat (map (\<lambda>e. contained_files env (entry_node e)) (entryList env es)) \<and>
   entryList env es =
     filter (\<lambda>e. entry_readable e \<and> entry_name e \<noteq> ''.'' \<and> entry_name e \<noteq> ''..'' \<and>
                \<not> entry_hidden e \<and> \<not> (dot_names_hidden env \<and> take 1 (entry_name e) = ''.'') \<and>
                \<not> isSystem (entry_node e)) es \<and>
   this_preview_songs (SetFilenames env fs t d) =
     take kNumberOfPreviews
       (filter is_valid
          (concat (map (\<lambda>p. contained_files env (node_at env p)) (take kNumberOfPreviews fs))))"
proof -
  have "entryList env es =
     filter (\<lambda>e. entry_readable e \<and> entry_name e \<noteq> ''.'' \<and> entry_name e \<noteq> ''..'' \<and>
                \<not> entry_hidden e \<and> \<not> (dot_names_hidden env \<and> take 1 (entry_name e) = ''.'') \<and>
                \<not> isSystem (entry_node e)) es"
    unfolding entryList_def isHidden_def by (rule filter_cong) auto
  then show ?thesis
    by (simp add: LoadPreviewSongs_char(1) contained_files_entries_entryList
        SetFilenames_preview_songs)
qed

theorem LoadPreviewSongs_expands_and_skips_witness:
  "contained_files example_env example_music =
     [example_song ''/music/a.mp3'' 4000, example_unreadable ''/music/cover.jpg'',
      example_song ''/music/live/b.mp3'' 5000] \<and>
   LoadPreviewSongs example_env example_music [] =
     [example_song ''/music/a.mp3'' 4000, example_song ''/music/live/b.mp3'' 5000] \<and>
   this_preview_songs (SetFilenames example_env [''/nowhere'', ''/music''] 0 example_dialog) =
     [example_song ''/music/a.mp3'' 4000, example_song ''/music/live/b.mp3'' 5000]"
proof -
  have files: "contained_files example_env example_music =
     [example_song ''/music/a.mp3'' 4000, example_unreadable ''/music/cover.jpg'',
      example_song ''/music/live/b.mp3'' 5000]"
    by (simp add: example_music_def example_env_def)
  have nowhere: "contained_files example_env (example_node_at ''/nowhere'') =
      [example_unreadable ''/nowhere'']"
    by (simp add: example_node_at_def)
  have music: "example_node_at ''/music'' = example_music"
    by (simp add: example_node_at_def)
  have at: "node_at example_env = example_node_at"
    by (simp add: example_env_def)
  from LoadPreviewSongs_expands_and_skips [of example_env example_music "[]" "[]"
      "[''/nowhere'', ''/music'']" 0 example_dialog] files nowhere music at
  show ?thesis
    by (simp add: kNumberOfPreviews_def example_song_def example_unreadable_def)
qed

lemma setters_preview_songs:
  "this_preview_songs (naming_setPlainText env t d) = this_preview_songs d"
  "this_preview_songs (replace_ascii_setChecked env b d) = this_preview_songs d"
  "this_preview_songs (replace_spaces_setChecked env b d) = this_preview_songs d"
  "this_preview_songs (replace_the_setChecked env b d) = this_preview_songs d"
  "this_preview_songs (destination_setCurrentIndex env i d) = this_preview_songs d"
  "this_preview_songs (SetCopy c d) = this_preview_songs d"
  "this_preview_songs (Reset env d) = this_preview_songs d"
  by (simp_all add: naming_setPlainText_def replace_ascii_setChecked_def
      replace_spaces_setChecked_def replace_the_setChecked_def destination_setCurrentIndex_def
      SetCopy_def Reset_def Let_def UpdatePreviews_frame)

lemma length_preview_SetFilenames:
  "length (this_preview_songs (SetFilenames env fs t d)) \<le> kNumberOfPreviews"
  by (simp add: SetFilenames_preview_songs)

lemma reachable_preview_songs:
  "reachable env d \<Longrightarrow> length (this_preview_songs d) \<le> kNumberOfPreviews"
proof (induction rule: reachable.induct)
  case (after_SetSongs d songs)
  show ?case by (simp add: SetSongs_def length_preview_SetFilenames split: prod.split)
next
  case (after_SetUrls d urls total_size)
  show ?case by (simp add: SetUrls_def length_preview_SetFilenames)
next
  case (after_SetFilenames d filenames total_size)
  show ?case by (rule length_preview_SetFilenames)
qed (simp_all add: setters_preview_songs UpdatePreviews_frame)

text \<open>
  Claim C9. The preview list never exceeds \<open>kNumberOfPreviews = 10\<close> songs: after
  \<^verbatim>\<open>SetFilenames\<close> it holds at most 10, whatever is supplied; \<^verbatim>\<open>LoadPreviewSongs\<close>
  never takes a list of at most 10 songs beyond 10; and so the list holds at most 10 songs
  in every state the dialog reaches.
\<close>

theorem preview_songs_at_most_ten:
  "kNumberOfPreviews = 10 \<and>
   length (this_preview_songs (SetFilenames env fs t d)) \<le> kNumberOfPreviews \<and>
   length (LoadPreviewSongs env node songs) \<le> max (length songs) kNumberOfPreviews \<and>
   (length songs \<le> kNumberOfPreviews \<longrightarrow>
      length (LoadPreviewSongs env node songs) \<le> kNumberOfPreviews) \<and>
   (reachable env d \<longrightarrow> length (this_preview_songs d) \<le> kNumberOfPreviews)"
proof -
  have "length (LoadPreviewSongs env node songs) \<le> max (length songs) kNumberOfPreviews"
    by (simp add: LoadPreviewSongs_char(1))
  moreover have "length (this_preview_songs (SetFilenames env fs t d)) \<le> kNumberOfPreviews"
    by (rule length_preview_SetFilenames)
  moreover have "reachable env d \<Longrightarrow> length (this_preview_songs d) \<le> kNumberOfPreviews"
    by (rule reachable_preview_songs)
  ultimately show ?thesis by (auto simp add: kNumberOfPreviews_def)
qed

theorem preview_songs_at_most_ten_witness:
  "length (replicate 8 (example_song ''x.mp3'' 1)) \<le> kNumberOfPreviews \<and>
   length (contained_files example_env
     (Dir (replicate 5 (Dirent ''y.mp3'' True False (File (example_song ''y.mp3'' 2)))))) = 5 \<and>
   length (LoadPreviewSongs example_env
             (Dir (replicate 5 (Dirent ''y.mp3'' True False (File (example_song ''y.mp3'' 2)))))
             (replicate 8 (example_song ''x.mp3'' 1))) = 10 \<and>
   reachable example_env
     (SetFilenames example_env [''/music''] 300
        (example_dialog\<lparr>this_filenames := [], this_preview_songs := [], this_total_size := 0\<rparr>)) \<and>
   length (this_preview_songs
     (SetFilenames example_env [''/music''] 300
        (example_dialog\<lparr>this_filenames := [], this_preview_songs := [], this_total_size := 0\<rparr>)))
     \<le> 10"
proof -
  let ?dir = "Dir (replicate 5 (Dirent ''y.mp3'' True False (File (example_song ''y.mp3'' 2))))"
  let ?songs = "replicate 8 (example_song ''x.mp3'' 1)"
  let ?d0 = "example_dialog\<lparr>this_filenames := [], this_preview_songs := [], this_total_size := 0\<rparr>"
  have h: "length ?songs \<le> kNumberOfPreviews"
    by (simp add: kNumberOfPreviews_def)
  have five: "length (contained_files example_env ?dir) = 5"
    by code_simp
  have ten: "length (LoadPreviewSongs example_env ?dir ?songs) = 10"
    by code_simp
  have "reachable example_env ?d0"
    by (rule reachable.constructed) simp_all
  then have r: "reachable example_env (SetFilenames example_env [''/music''] 300 ?d0)"
    by (rule reachable.after_SetFilenames)
  from preview_songs_at_most_ten [of example_env "[]" 0
      "SetFilenames example_env [''/music''] 300 ?d0" ?dir ?songs] h five ten r
  show ?thesis by simp
qed

section \<open>SetSongs\<close>

lemma SetSongs_loop_char:
  "SetSongs_loop env songs (total_size, filenames) =
     (total_size + word_of_int (sum_list (map filesize
        (filter (\<lambda>song. \<not> isEmpty (QUrl_of env (filename song)) \<and>
                        (scheme (QUrl_of env (filename song)) = [] \<or>
                         scheme (QUrl_of env (filename song)) = ''file'') \<and>
                        filesize song > 0) songs))),
      filenames @ map (\<lambda>song. toLocalFile (QUrl_of env (filename song)))
        (filter (\<lambda>song. \<not> isEmpty (QUrl_of env (filename song)) \<and>
                        (scheme (QUrl_of env (filename song)) = [] \<or>
                         scheme (QUrl_of env (filename song)) = ''file'')) songs))"
proof (induction songs arbitrary: total_size filenames)
  case Nil
  show ?case by simp
next
  case (Cons song songs)
  show ?case by (simp add: Cons.IH Let_def)
qed

text \<open>
  Claim C5. After \<^verbatim>\<open>SetSongs\<close> the recorded total size is the sum of the file sizes of
  exactly the songs that have a local URL (a URL that is not empty, with no scheme or the
  scheme \<^verbatim>\<open>file\<close>) and a strictly positive file size, and the recorded filenames are the
  local-file forms of the local URLs, in the order of the list. The sum is the one the
  \<^verbatim>\<open>quint64\<close> holds: it is the exact sum whenever that is below \<open>2 ^ 64\<close>.
\<close>

theorem SetSongs_total_and_filenames:
  "let is_local = (\<lambda>song. \<not> isEmpty (QUrl_of env (filename song)) \<and>
                      (scheme (QUrl_of env (filename song)) = [] \<or>
                       scheme (QUrl_of env (filename song)) = ''file''));
       counted = filter (\<lambda>song. is_local song \<and> filesize song > 0) songs;
       d' = SetSongs env songs d
   in uint (this_total_size d') = sum_list (map filesize counted) mod 2 ^ 64 \<and>
      (sum_list (map filesize counted) < 2 ^ 64 \<longrightarrow>
         uint (this_total_size d') = sum_list (map filesize counted)) \<and>
      this_filenames d' = map (\<lambda>song. toLocalFile (QUrl_of env (filename song)))
                              (filter is_local songs)"
proof -
  let ?loc = "\<lambda>song. \<not> isEmpty (QUrl_of env (filename song)) \<and>
                      (scheme (QUrl_of env (filename song)) = [] \<or>
                       scheme (QUrl_of env (filename song)) = ''file'')"
  let ?S = "sum_list (map filesize (filter (\<lambda>song. ?loc song \<and> filesize song > 0) songs))"
  have nonneg: "0 \<le> ?S"
    by (rule sum_list_nonneg) auto
  have tot: "this_total_size (SetSongs env songs d) = word_of_int ?S"
    by (simp add: SetSongs_def SetSongs_loop_char SetFilenames_frame)
  have fns: "this_filenames (SetSongs env songs d) =
      map (\<lambda>song. toLocalFile (QUrl_of env (filename song))) (filter ?loc songs)"
    by (simp add: SetSongs_def SetSongs_loop_char SetFilenames_frame)
  have u: "uint (this_total_size (SetSongs env songs d)) = ?S mod 2 ^ 64"
    by (simp add: tot uint_word_of_int)
  have "?S < 2 ^ 64 \<Longrightarrow> ?S mod 2 ^ 64 = ?S"
    using nonneg by simp
  with u fns show ?thesis by (simp add: Let_def)
qed

theorem SetSongs_total_and_filenames_witness:
  "uint (this_total_size (SetSongs example_env
      [example_song ''file:///music/a.mp3'' 4000, example_song ''http://radio/stream'' 5,
       example_song ''/music/c.mp3'' (- 1), example_song ''/music/d.mp3'' 6000] example_dialog)) = 10000 \<and>
   this_filenames (SetSongs example_env
      [example_song ''file:///music/a.mp3'' 4000, example_song ''http://radio/stream'' 5,
       example_song ''/music/c.mp3'' (- 1), example_song ''/music/d.mp3'' 6000] example_dialog) =
     [''/music/a.mp3'', ''/music/c.mp3'', ''/music/d.mp3'']"
  using SetSongs_total_and_filenames [of example_env
      "[example_song ''file:///music/a.mp3'' 4000, example_song ''http://radio/stream'' 5,
        example_song ''/music/c.mp3'' (- 1), example_song ''/music/d.mp3'' 6000]" example_dialog]
  by (simp add: Let_def example_env_def example_QUrl_def example_song_def)

section \<open>accept\<close>

text \<open>
  Claim C8. \<^verbatim>\<open>accept\<close> starts exactly one organise batch, constructed with the dialog's
  current configuration: the selected storage, the compiled format \<^verbatim>\<open>format_\<close> (which,
  kept in step with the widgets, is the template string and the three replace flags), copy
  exactly when the after-copying selector is at index 0, the overwrite flag, the stored
  source filenames and the eject-after flag.
\<close>

theorem accept_starts_batch_with_configuration:
  "started (accept d w) =
     started w @
       [\<lparr>org_destination = destination_storage (current_destination d),
         org_format = this_format d,
         org_copy = (ui_aftercopying_currentIndex d = 0),
         org_overwrite = ui_overwrite d,
         org_files = this_filenames d,
         org_eject_after = ui_eject_after d\<rparr>] \<and>
   length (started (accept d w)) = length (started w) + 1 \<and>
   (this_format d = widgets_format d \<longrightarrow>
      org_format (last (started (accept d w))) =
        \<lparr>format = ui_naming d, replace_non_ascii = ui_replace_ascii d,
         replace_spaces = ui_replace_spaces d, replace_the = ui_replace_the d\<rparr>)"
  by (simp add: accept_def accept_organise_def Let_def widgets_format_def)

theorem accept_starts_batch_with_configuration_witness:
  "this_format (UpdatePreviews example_env example_dialog) =
     widgets_format (UpdatePreviews example_env example_dialog) \<and>
   started (accept (UpdatePreviews example_env example_dialog) example_world) =
     [\<lparr>org_destination = Some \<lparr>LocalPath = ''/mnt/usb''\<rparr>,
       org_format = \<lparr>format = ''%artist/%title'', replace_non_ascii = False,
                     replace_spaces = True, replace_the = False\<rparr>,
       org_copy = False, org_overwrite = False, org_files = [''/music''],
       org_eject_after = True\<rparr>]"
proof -
  have h: "this_format (UpdatePreviews example_env example_dialog) =
     widgets_format (UpdatePreviews example_env example_dialog)"
    by (rule format_synced)
  from accept_starts_batch_with_configuration
         [of "UpdatePreviews example_env example_dialog" example_world] h
  show ?thesis
    by (simp add: UpdatePreviews_frame UpdatePreviews_format current_destination_UpdatePreviews)
       (simp add: dialog_defs example_defs)
qed

section \<open>A destination without a local path\<close>

lemma UpdatePreviews_preview_no_local:
  "destination_storage (current_destination d) = Some s \<Longrightarrow> LocalPath s = [] \<Longrightarrow>
   IsValid env (widgets_format d) \<Longrightarrow>
   ui_preview (UpdatePreviews env d) = [] \<and>
   \<not> ui_preview_group_visible (UpdatePreviews env d) \<and>
   \<not> ui_naming_group_visible (UpdatePreviews env d)"
  by (simp add: UpdatePreviews_def Let_def widgets_format_def)

lemma accept_organise_UpdatePreviews:
  "org_destination (accept_organise (UpdatePreviews env d)) = destination_storage (current_destination d)"
  by (simp add: accept_organise_def Let_def current_destination_UpdatePreviews)

text \<open>
  Claim C3, as stated, says that for a storage whose \<^verbatim>\<open>LocalPath\<close> is empty the
  destination paths are still computed for preview. The dialog does the opposite. With
  the second destination of the example selected (empty \<^verbatim>\<open>LocalPath\<close>), a valid
  template and one preview song loaded, \<^verbatim>\<open>UpdatePreviews\<close> leaves the preview list
  empty, not the one path per preview song, and hides the preview group.
\<close>

theorem no_local_path_preview_counterexample:
  "destination_storage (current_destination (example_dialog\<lparr>ui_destination_currentIndex := 1\<rparr>))
     = Some \<lparr>LocalPath = []\<rparr> \<and>
   IsValid example_env (widgets_format (example_dialog\<lparr>ui_destination_currentIndex := 1\<rparr>)) \<and>
   this_preview_songs (example_dialog\<lparr>ui_destination_currentIndex := 1\<rparr>)
     = [example_song ''/music/a.mp3'' 4000] \<and>
   ui_preview (UpdatePreviews example_env (example_dialog\<lparr>ui_destination_currentIndex := 1\<rparr>)) = [] \<and>
   ui_preview (UpdatePreviews example_env (example_dialog\<lparr>ui_destination_currentIndex := 1\<rparr>)) \<noteq>
     preview_items example_env (widgets_format (example_dialog\<lparr>ui_destination_currentIndex := 1\<rparr>))
       \<lparr>LocalPath = []\<rparr> (this_preview_songs (example_dialog\<lparr>ui_destination_currentIndex := 1\<rparr>)) \<and>
   \<not> ui_preview_group_visible
       (UpdatePreviews example_env (example_dialog\<lparr>ui_destination_currentIndex := 1\<rparr>))"
  by (simp add: dialog_defs example_defs)

text \<open>
  Claim C3, amended. For a selected storage whose \<^verbatim>\<open>LocalPath\<close> is empty,
  \<^verbatim>\<open>UpdatePreviews\<close> with a valid template computes no destination path: it leaves the
  preview list empty and hides the preview group and the naming group. The storage can
  still be organised to: the Ok button is enabled under the same conditions as for any
  other storage (source filenames present, no shortage of space on a target that reports
  a capacity), and \<^verbatim>\<open>accept\<close> hands that storage to the organise batch.
\<close>

theorem no_local_path_hides_preview:
  assumes "destination_storage (current_destination d) = Some s"
    and "LocalPath s = []"
    and "IsValid env (widgets_format d)"
  shows "ui_preview (UpdatePreviews env d) = [] \<and>
     \<not> ui_preview_group_visible (UpdatePreviews env d) \<and>
     \<not> ui_naming_group_visible (UpdatePreviews env d) \<and>
     (ui_ok_enabled (UpdatePreviews env d) \<longleftrightarrow>
        this_filenames d \<noteq> [] \<and>
        \<not> (destination_capacity (current_destination d) \<noteq> 0 \<and>
           this_total_size d > destination_free (current_destination d))) \<and>
     org_destination (accept_organise (UpdatePreviews env d)) = Some s"
  using assms UpdatePreviews_preview_no_local [OF assms]
  by (simp add: UpdatePreviews_ok accept_organise_UpdatePreviews)

theorem no_local_path_hides_preview_witness:
  "destination_storage (current_destination (example_dialog\<lparr>ui_destination_currentIndex := 1\<rparr>))
     = Some \<lparr>LocalPath = []\<rparr> \<and>
   LocalPath \<lparr>LocalPath = []\<rparr> = [] \<and>
   IsValid example_env (widgets_format (example_dialog\<lparr>ui_destination_currentIndex := 1\<rparr>)) \<and>
   ui_preview (UpdatePreviews example_env (example_dialog\<lparr>ui_destination_currentIndex := 1\<rparr>)) = [] \<and>
   ui_ok_enabled (UpdatePreviews example_env (example_dialog\<lparr>ui_destination_currentIndex := 1\<rparr>)) \<and>
   org_destination (accept_organise
      (UpdatePreviews example_env (example_dialog\<lparr>ui_destination_currentIndex := 1\<rparr>)))
     = Some \<lparr>LocalPath = []\<rparr>"
proof -
  let ?d = "example_dialog\<lparr>ui_destination_currentIndex := 1\<rparr>"
  have h1: "destination_storage (current_destination ?d) = Some \<lparr>LocalPath = []\<rparr>"
    by (simp add: dialog_defs example_defs)
  have h2: "LocalPath \<lparr>LocalPath = []\<rparr> = []"
    by simp
  have h3: "IsValid example_env (widgets_format ?d)"
    by (simp add: dialog_defs example_defs)
  have h4: "this_filenames ?d \<noteq> [] \<and> destination_capacity (current_destination ?d) = 0"
    by (simp add: dialog_defs example_defs)
  from no_local_path_hides_preview [OF h1 h2 h3] h1 h2 h3 h4 show ?thesis by simp
qed

section \<open>Conditional blocks of the template\<close>

lemma decimal_nonempty: "decimal n \<noteq> []"
  by (subst decimal.simps) simp

lemma numeric_field_empty: "numeric_field n = [] \<longleftrightarrow> n = 0"
  by (simp add: numeric_field_def decimal_nonempty)

lemma Instantiate_segments_append:
  "Instantiate_segments (xs @ ys) R = Instantiate_segments xs R @ Instantiate_segments ys R"
  by (simp add: Instantiate_segments_def)

lemma decimal_2: "decimal 2 = ''2''"
  by (simp add: decimal.simps digit_def)

text \<open>
  Claim C2. Wherever a conditional block stands in a template, and for every metadata
  record, the block contributes its rendered text when every tag reference inside it
  resolves to a non-empty value and nothing at all otherwise. For the block
  \<^verbatim>\<open>{ (Disc %disc)}\<close> that is \<^verbatim>\<open> (Disc n)\<close> for a known disc number \<open>n\<close> and the empty
  string, literal text included, when the disc is absent; so
  \<^verbatim>\<open>%artist/%album{ (Disc %disc)}/%title\<close> is artist, album and title with only the
  separators between them when the disc is absent.
\<close>

theorem conditional_block_elision:
  "Instantiate_segments (pre @ [Block segs] @ post) R =
     Instantiate_segments pre R @
     (if \<forall>t \<in> set (direct_tags segs). resolve R t \<noteq> [] then Instantiate_segments segs R else []) @
     Instantiate_segments post R \<and>
   Instantiate_segments [Block [Literal '' (Disc '', TagRef Tag_disc, Literal '')'']] R =
     (if disc R = 0 then [] else '' (Disc '' @ decimal (disc R) @ '')'') \<and>
   Instantiate_segments
     [TagRef Tag_artist, Literal ''/'', TagRef Tag_album,
      Block [Literal '' (Disc '', TagRef Tag_disc, Literal '')''], Literal ''/'', TagRef Tag_title] R =
     artist R @ ''/'' @ album R @
     (if disc R = 0 then [] else '' (Disc '' @ decimal (disc R) @ '')'') @ ''/'' @ title R"
proof -
  have a: "Instantiate_segments (pre @ [Block segs] @ post) R =
     Instantiate_segments pre R @
     (if \<forall>t \<in> set (direct_tags segs). resolve R t \<noteq> [] then Instantiate_segments segs R else []) @
     Instantiate_segments post R"
    unfolding Instantiate_segments_append
    by (simp add: Instantiate_segments_def list_all_iff)
  have b: "evaluate R (Block [Literal '' (Disc '', TagRef Tag_disc, Literal '')'']) =
     (if disc R = 0 then [] else '' (Disc '' @ decimal (disc R) @ '')'')"
    by (simp add: numeric_field_empty) (simp add: numeric_field_def)
  have c: "Instantiate_segments [Block [Literal '' (Disc '', TagRef Tag_disc, Literal '')'']] R =
     (if disc R = 0 then [] else '' (Disc '' @ decimal (disc R) @ '')'')"
    unfolding Instantiate_segments_def using b by simp
  have d: "Instantiate_segments
     [TagRef Tag_artist, Literal ''/'', TagRef Tag_album,
      Block [Literal '' (Disc '', TagRef Tag_disc, Literal '')''], Literal ''/'', TagRef Tag_title] R =
     artist R @ ''/'' @ album R @
     (if disc R = 0 then [] else '' (Disc '' @ decimal (disc R) @ '')'') @ ''/'' @ title R"
    unfolding Instantiate_segments_def using b by simp
  from a c d show ?thesis by simp
qed

theorem conditional_block_elision_witness:
  "direct_tags [Literal '' (Disc '', TagRef Tag_disc, Literal '')''] = [Tag_disc] \<and>
   resolve example_record Tag_disc = ''2'' \<and>
   resolve (example_record\<lparr>disc := 0\<rparr>) Tag_disc = [] \<and>
   Instantiate_segments
     [TagRef Tag_artist, Literal ''/'', TagRef Tag_album,
      Block [Literal '' (Disc '', TagRef Tag_disc, Literal '')''], Literal ''/'', TagRef Tag_title]
     example_record = ''Artist/Album (Disc 2)/Title'' \<and>
   Instantiate_segments
     [TagRef Tag_artist, Literal ''/'', TagRef Tag_album,
      Block [Literal '' (Disc '', TagRef Tag_disc, Literal '')''], Literal ''/'', TagRef Tag_title]
     (example_record\<lparr>disc := 0\<rparr>) = ''Artist/Album/Title''"
  using conditional_block_elision [of "[]" "[]" "[]" example_record]
    conditional_block_elision [of "[]" "[]" "[]" "example_record\<lparr>disc := 0\<rparr>"]
  by (simp add: example_record_def decimal_2 numeric_field_def)

end
